theory Spec2Isabelle
  imports Main "HOL-Library.Sublist"
begin

section \<open>Python values\<close>

text \<open>
  The notebook \<^verbatim>\<open>docs/docs/guides/local_llms.ipynb\<close> builds objects of classes of an
  external client library and hands them literals. A value is a literal, a list, a dict
  or an object. An object is known by its type and by the arguments it was constructed
  with; a type is the name of the class together with the names of its proper base
  classes (the rest of its method resolution order).
\<close>

type_synonym pytype = "string \<times> string list"

datatype pyval =
    NoneV
  | BoolV bool
  | IntV int
  | StrV string
  | ListV "pyval list"
  | DictV "(pyval \<times> pyval) list"
  | ObjV pytype "pyval list" "(string \<times> pyval) list"

fun type_of :: "pyval \<Rightarrow> pytype" where
  "type_of NoneV = (''NoneType'', [''object''])"
| "type_of (BoolV b) = (''bool'', [''int'', ''object''])"
| "type_of (IntV i) = (''int'', [''object''])"
| "type_of (StrV s) = (''str'', [''object''])"
| "type_of (ListV xs) = (''list'', [''object''])"
| "type_of (DictV kvs) = (''dict'', [''object''])"
| "type_of (ObjV t args kwargs) = t"

text \<open>Python's \<^verbatim>\<open>isinstance(v, C)\<close>: \<open>C\<close> is the class of \<open>v\<close> or one of its bases.\<close>

definition isinstance :: "pyval \<Rightarrow> string \<Rightarrow> bool" where
  "isinstance v C = (C = fst (type_of v) \<or> C \<in> set (snd (type_of v)))"

text \<open>Python's \<^verbatim>\<open>sub in s\<close> on strings.\<close>

fun str_contains :: "string \<Rightarrow> string \<Rightarrow> bool" where
  "str_contains [] sub = (sub = [])"
| "str_contains (c # cs) sub = (prefix sub (c # cs) \<or> str_contains cs sub)"

text \<open>
  The names the notebook imports from the client library. They are bound once, by the
  import statements, and never rebound; they are modelled as constants.
\<close>

definition Ollama :: string where "Ollama = ''Ollama''"
definition LlamaCpp :: string where "LlamaCpp = ''LlamaCpp''"
definition GPT4All :: string where "GPT4All = ''GPT4All''"
definition CallbackManager :: string where "CallbackManager = ''CallbackManager''"
definition StreamingStdOutCallbackHandler :: string where
  "StreamingStdOutCallbackHandler = ''StreamingStdOutCallbackHandler''"

section \<open>Prompt templates and the prompt selector\<close>

text \<open>
  \<^verbatim>\<open>PromptTemplate(input_variables=[...], template="...")\<close>: the two fields the notebook
  sets.
\<close>

record PromptTemplate =
  input_variables :: "string list"
  template :: string

text \<open>
  \<^verbatim>\<open>ConditionalPromptSelector(default_prompt=..., conditionals=[(condition, prompt), ...])\<close>
  as the notebook constructs it: a default template and a list of pairs of a predicate
  on the llm and a template.
\<close>

record 'llm ConditionalPromptSelector =
  default_prompt :: PromptTemplate
  conditionals :: "(('llm \<Rightarrow> bool) \<times> PromptTemplate) list"

text \<open>
  Modelled from the spec: the method \<^verbatim>\<open>ConditionalPromptSelector.get_prompt\<close> of
  \<^verbatim>\<open>langchain.chains.prompt_selector\<close>, which the notebook calls and which is not among
  the source files. The spec describes it as "a prompt-selection utility that chooses
  between two static prompt templates based on the concrete client type in use" and
  "select a prompt template conditionally on client type": the conditions are tried in
  the order of the list, the template of the first one that holds of the llm is
  returned, and the default template when none holds.
\<close>

fun select_prompt ::
  "(('llm \<Rightarrow> bool) \<times> PromptTemplate) list \<Rightarrow> PromptTemplate \<Rightarrow> 'llm \<Rightarrow> PromptTemplate" where
  "select_prompt [] dflt llm = dflt"
| "select_prompt ((condition, prompt) # rest) dflt llm =
     (if condition llm then prompt else select_prompt rest dflt llm)"

definition get_prompt :: "'llm ConditionalPromptSelector \<Rightarrow> 'llm \<Rightarrow> PromptTemplate" where
  "get_prompt selector llm = select_prompt (conditionals selector) (default_prompt selector) llm"

text \<open>
  Cell \<^verbatim>\<open>8555f5bf\<close>, the three constants. In the Python source a backslash at the end of
  a line inside the triple-quoted literal joins the lines, and \<^verbatim>\<open>\n\<close> is a newline
  character.
\<close>

definition DEFAULT_LLAMA_SEARCH_PROMPT :: PromptTemplate where
  "DEFAULT_LLAMA_SEARCH_PROMPT = \<lparr>
     input_variables = [''question''],
     template = ''<<SYS>> \<newline> You are an assistant tasked with improving Google search results. \<newline> <</SYS>> \<newline>\<newline> [INST] Generate THREE Google search queries that are similar to this question. The output should be a numbered list of questions and each should have a question mark at the end: \<newline>\<newline> {question} [/INST]''
   \<rparr>"

definition DEFAULT_SEARCH_PROMPT :: PromptTemplate where
  "DEFAULT_SEARCH_PROMPT = \<lparr>
     input_variables = [''question''],
     template = ''You are an assistant tasked with improving Google search results. Generate THREE Google search queries that are similar to this question. The output should be a numbered list of questions and each should have a question mark at the end: {question}''
   \<rparr>"

definition QUESTION_PROMPT_SELECTOR :: "pyval ConditionalPromptSelector" where
  "QUESTION_PROMPT_SELECTOR = \<lparr>
     default_prompt = DEFAULT_SEARCH_PROMPT,
     conditionals = [(\<lambda>llm. isinstance llm LlamaCpp, DEFAULT_LLAMA_SEARCH_PROMPT)]
   \<rparr>"

section \<open>Calls into the library\<close>

text \<open>
  \<^verbatim>\<open>LLMChain(prompt=..., llm=...)\<close>: the two fields the notebook sets.
\<close>

record LLMChain =
  chain_prompt :: PromptTemplate
  chain_llm :: pyval

text \<open>
  Everything the notebook does is a call into the library (or an IPython magic line).
  Each call is a request. The notebook's cells are run against a world that stands for
  the library and the machine: for a request made after a history of earlier requests
  the world says whether the call raises, and what a client or a chain replies; it also
  knows the base classes of every class.
\<close>

datatype exn = NameError string | Raised string string

datatype request =
    Magic string
  | Import string string
  | Construct string "pyval list" "(string \<times> pyval) list"
  | NewPromptTemplate PromptTemplate
  | NewSelector PromptTemplate "((pyval \<Rightarrow> bool) \<times> PromptTemplate) list"
  | GetPrompt "pyval ConditionalPromptSelector" pyval
  | NewChain PromptTemplate pyval
  | Invoke pyval "pyval list"
  | RunChain LLMChain "pyval list"

record world =
  raises :: "request list \<Rightarrow> request \<Rightarrow> exn option"
  reply :: "request list \<Rightarrow> request \<Rightarrow> string"
  bases :: "string \<Rightarrow> string list"

text \<open>
  A computation runs in a world, after a history of requests; it ends in an exception or
  a value, and leaves the history extended by the requests it made.
\<close>

type_synonym 'a io = "world \<Rightarrow> request list \<Rightarrow> (exn + 'a) \<times> request list"

definition ret :: "'a \<Rightarrow> 'a io" where
  "ret x = (\<lambda>w h. (Inr x, h))"

definition throw :: "exn \<Rightarrow> 'a io" where
  "throw e = (\<lambda>w h. (Inl e, h))"

definition seq :: "'a io \<Rightarrow> ('a \<Rightarrow> 'b io) \<Rightarrow> 'b io" where
  "seq m f = (\<lambda>w h. case m w h of (Inl e, h') \<Rightarrow> (Inl e, h') | (Inr x, h') \<Rightarrow> f x w h')"

text \<open>
  A call: the request is recorded; the exception is the world's, the value is
  \<open>result\<close>.
\<close>

definition call :: "request \<Rightarrow> (world \<Rightarrow> request list \<Rightarrow> 'a) \<Rightarrow> 'a io" where
  "call r result = (\<lambda>w h. case raises w h r of
       Some e \<Rightarrow> (Inl e, h @ [r])
     | None \<Rightarrow> (Inr (result w h), h @ [r]))"

text \<open>A line such as \<^verbatim>\<open>%env FORCE_CMAKE=1\<close> or \<^verbatim>\<open>pip install gpt4all\<close>.\<close>

definition magic :: "string \<Rightarrow> unit io" where
  "magic line = call (Magic line) (\<lambda>w h. ())"

text \<open>\<^verbatim>\<open>from module import name\<close>.\<close>

definition import_from :: "string \<Rightarrow> string \<Rightarrow> unit io" where
  "import_from module name = call (Import module name) (\<lambda>w h. ())"

text \<open>
  \<^verbatim>\<open>C(*args, **kwargs)\<close> for a class of the client library: when the constructor does
  not raise, the value is an object of class \<open>C\<close> made from these arguments.
\<close>

definition construct :: "string \<Rightarrow> pyval list \<Rightarrow> (string \<times> pyval) list \<Rightarrow> pyval io" where
  "construct C args kwargs =
     call (Construct C args kwargs) (\<lambda>w h. ObjV (C, bases w C) args kwargs)"

text \<open>\<^verbatim>\<open>f(*args)\<close> for an object \<open>f\<close>: the client's call interface; it replies a string.\<close>

definition invoke :: "pyval \<Rightarrow> pyval list \<Rightarrow> pyval io" where
  "invoke f args = call (Invoke f args) (\<lambda>w h. StrV (reply w h (Invoke f args)))"

text \<open>
  Modelled from the spec: the constructors of \<^verbatim>\<open>PromptTemplate\<close>,
  \<^verbatim>\<open>ConditionalPromptSelector\<close> and \<^verbatim>\<open>LLMChain\<close> are not among the source files. The
  spec speaks of "static prompt templates": a construction that does not raise gives
  the object that holds the arguments it was given.
\<close>

definition new_prompt_template :: "PromptTemplate \<Rightarrow> PromptTemplate io" where
  "new_prompt_template p = call (NewPromptTemplate p) (\<lambda>w h. p)"

definition new_selector ::
  "PromptTemplate \<Rightarrow> ((pyval \<Rightarrow> bool) \<times> PromptTemplate) list \<Rightarrow> pyval ConditionalPromptSelector io" where
  "new_selector dflt conds =
     call (NewSelector dflt conds) (\<lambda>w h. \<lparr>default_prompt = dflt, conditionals = conds\<rparr>)"

text \<open>\<^verbatim>\<open>selector.get_prompt(llm)\<close>: when the call does not raise, the value is \<open>get_prompt\<close>'s.\<close>

definition selector_get_prompt :: "pyval ConditionalPromptSelector \<Rightarrow> pyval \<Rightarrow> PromptTemplate io" where
  "selector_get_prompt selector llm =
     call (GetPrompt selector llm) (\<lambda>w h. get_prompt selector llm)"

definition new_chain :: "PromptTemplate \<Rightarrow> pyval \<Rightarrow> LLMChain io" where
  "new_chain p llm = call (NewChain p llm) (\<lambda>w h. \<lparr>chain_prompt = p, chain_llm = llm\<rparr>)"

text \<open>\<^verbatim>\<open>chain.run(*args)\<close>: it replies a string.\<close>

definition chain_run :: "LLMChain \<Rightarrow> pyval list \<Rightarrow> pyval io" where
  "chain_run chain args = call (RunChain chain args) (\<lambda>w h. StrV (reply w h (RunChain chain args)))"

section \<open>The notebook's names and statements\<close>

text \<open>
  The names the notebook assigns. A name that no statement has bound yet is \<open>None\<close>;
  reading it raises \<^verbatim>\<open>NameError\<close>.
\<close>

record globals =
  g_llm :: "pyval option"
  g_DEFAULT_LLAMA_SEARCH_PROMPT :: "PromptTemplate option"
  g_DEFAULT_SEARCH_PROMPT :: "PromptTemplate option"
  g_QUESTION_PROMPT_SELECTOR :: "pyval ConditionalPromptSelector option"
  g_prompt :: "PromptTemplate option"
  g_llm_chain :: "LLMChain option"
  g_question :: "string option"

definition no_globals :: globals where
  "no_globals = \<lparr>g_llm = None, g_DEFAULT_LLAMA_SEARCH_PROMPT = None,
     g_DEFAULT_SEARCH_PROMPT = None, g_QUESTION_PROMPT_SELECTOR = None, g_prompt = None,
     g_llm_chain = None, g_question = None\<rparr>"

definition name :: "string \<Rightarrow> 'a option \<Rightarrow> 'a io" where
  "name x binding = (case binding of None \<Rightarrow> throw (NameError x) | Some v \<Rightarrow> ret v)"

text \<open>
  A statement takes the names to the names after it. An assignment evaluates its right
  side and then binds; an expression statement evaluates and binds nothing, and so do,
  here, an import and a magic line, which are run for their request alone. (IPython
  also displays the value of a cell's last expression; the display is not modelled.)
\<close>

type_synonym stmt = "globals \<Rightarrow> globals io"

definition assign :: "('a \<Rightarrow> globals \<Rightarrow> globals) \<Rightarrow> (globals \<Rightarrow> 'a io) \<Rightarrow> stmt" where
  "assign store e = (\<lambda>g. seq (e g) (\<lambda>v. ret (store v g)))"

definition expr_stmt :: "(globals \<Rightarrow> 'a io) \<Rightarrow> stmt" where
  "expr_stmt e = (\<lambda>g. seq (e g) (\<lambda>v. ret g))"

text \<open>
  A cell runs its statements in order and stops at the first exception, with the names
  as they were when the failing statement began. The outcome is the exception, if any,
  the names, and the history.
\<close>

type_synonym outcome = "exn option \<times> globals \<times> request list"

fun run_cell :: "stmt list \<Rightarrow> globals \<Rightarrow> world \<Rightarrow> request list \<Rightarrow> outcome" where
  "run_cell [] g w h = (None, g, h)"
| "run_cell (st # sts) g w h =
     (case st g w h of
        (Inl e, h') \<Rightarrow> (Some e, g, h')
      | (Inr g', h') \<Rightarrow> run_cell sts g' w h')"

text \<open>The cells in document order, stopping at the first cell that fails.\<close>

fun run_cells :: "stmt list list \<Rightarrow> globals \<Rightarrow> world \<Rightarrow> request list \<Rightarrow> outcome" where
  "run_cells [] g w h = (None, g, h)"
| "run_cells (c # cs) g w h =
     (case run_cell c g w h of
        (None, g', h') \<Rightarrow> run_cells cs g' w h'
      | (Some e, g', h') \<Rightarrow> (Some e, g', h'))"

section \<open>The code cells\<close>

text \<open>Cell \<^verbatim>\<open>86178adb\<close>.\<close>

definition cell_86178adb :: "stmt list" where
  "cell_86178adb = [
     expr_stmt (\<lambda>g. import_from ''langchain.llms'' ''Ollama''),
     assign (\<lambda>v g. g\<lparr>g_llm := Some v\<rparr>)
       (\<lambda>g. construct Ollama [] [(''model'', StrV ''llama2'')]),
     expr_stmt (\<lambda>g. seq (name ''llm'' (g_llm g))
       (\<lambda>f. invoke f [StrV ''The first man on the moon was ...'']))
   ]"

text \<open>Cell \<^verbatim>\<open>9cd83603\<close>. Arguments are evaluated left to right, inner calls first.\<close>

definition cell_9cd83603 :: "stmt list" where
  "cell_9cd83603 = [
     expr_stmt (\<lambda>g. import_from ''langchain.callbacks.manager'' ''CallbackManager''),
     expr_stmt (\<lambda>g. import_from ''langchain.callbacks.streaming_stdout''
       ''StreamingStdOutCallbackHandler''),
     assign (\<lambda>v g. g\<lparr>g_llm := Some v\<rparr>)
       (\<lambda>g. seq (construct StreamingStdOutCallbackHandler [] [])
         (\<lambda>handler. seq (construct CallbackManager [ListV [handler]] [])
         (\<lambda>manager. construct Ollama []
            [(''model'', StrV ''llama2''), (''callback_manager'', manager)]))),
     expr_stmt (\<lambda>g. seq (name ''llm'' (g_llm g))
       (\<lambda>f. invoke f [StrV ''The first man on the moon was ...'']))
   ]"

text \<open>Cell \<^verbatim>\<open>8ecd2f78\<close>.\<close>

definition cell_8ecd2f78 :: "stmt list" where
  "cell_8ecd2f78 = [
     expr_stmt (\<lambda>g. import_from ''langchain.llms'' ''Ollama''),
     assign (\<lambda>v g. g\<lparr>g_llm := Some v\<rparr>)
       (\<lambda>g. construct Ollama [] [(''model'', StrV ''llama2:13b'')]),
     expr_stmt (\<lambda>g. seq (name ''llm'' (g_llm g))
       (\<lambda>f. invoke f [StrV ''The first man on the moon was ... think step by step'']))
   ]"

text \<open>Cell \<^verbatim>\<open>5eba38dc\<close>: three magic lines.\<close>

definition cell_5eba38dc :: "stmt list" where
  "cell_5eba38dc = [
     expr_stmt (\<lambda>g. magic ''%env CMAKE_ARGS=\"-DLLAMA_METAL=on\"''),
     expr_stmt (\<lambda>g. magic ''%env FORCE_CMAKE=1''),
     expr_stmt (\<lambda>g. magic ''%pip install -U llama-cpp-python --no-cache-dirclear`'')
   ]"

text \<open>Cell \<^verbatim>\<open>a88bf0c8\<close>.\<close>

definition cell_a88bf0c8 :: "stmt list" where
  "cell_a88bf0c8 = [
     expr_stmt (\<lambda>g. import_from ''langchain.callbacks.manager'' ''CallbackManager''),
     expr_stmt (\<lambda>g. import_from ''langchain.callbacks.streaming_stdout''
       ''StreamingStdOutCallbackHandler''),
     expr_stmt (\<lambda>g. import_from ''langchain.llms'' ''LlamaCpp''),
     assign (\<lambda>v g. g\<lparr>g_llm := Some v\<rparr>)
       (\<lambda>g. seq (construct StreamingStdOutCallbackHandler [] [])
         (\<lambda>handler. seq (construct CallbackManager [ListV [handler]] [])
         (\<lambda>manager. construct LlamaCpp []
            [(''model_path'', StrV ''/Users/rlm/Desktop/Code/llama.cpp/models/openorca-platypus2-13b.gguf.q4_0.bin''),
             (''n_gpu_layers'', IntV 1),
             (''n_batch'', IntV 512),
             (''n_ctx'', IntV 2048),
             (''f16_kv'', BoolV True),
             (''callback_manager'', manager),
             (''verbose'', BoolV True)])))
   ]"

text \<open>Cell \<^verbatim>\<open>7890a077\<close>.\<close>

definition cell_7890a077 :: "stmt list" where
  "cell_7890a077 = [
     expr_stmt (\<lambda>g. seq (name ''llm'' (g_llm g))
       (\<lambda>f. invoke f [StrV ''The first man on the moon was ... Let's think step by step'']))
   ]"

text \<open>Cell \<^verbatim>\<open>e27baf6e\<close>: a shell line.\<close>

definition cell_e27baf6e :: "stmt list" where
  "cell_e27baf6e = [expr_stmt (\<lambda>g. magic ''pip install gpt4all'')]"

text \<open>Cell \<^verbatim>\<open>915ecd4c\<close>.\<close>

definition cell_915ecd4c :: "stmt list" where
  "cell_915ecd4c = [
     expr_stmt (\<lambda>g. import_from ''langchain.llms'' ''GPT4All''),
     assign (\<lambda>v g. g\<lparr>g_llm := Some v\<rparr>)
       (\<lambda>g. construct GPT4All []
          [(''model'', StrV ''/Users/rlm/Desktop/Code/gpt4all/models/nous-hermes-13b.ggmlv3.q4_0.bin'')])
   ]"

text \<open>Cell \<^verbatim>\<open>e3d4526f\<close>.\<close>

definition cell_e3d4526f :: "stmt list" where
  "cell_e3d4526f = [
     expr_stmt (\<lambda>g. seq (name ''llm'' (g_llm g))
       (\<lambda>f. invoke f [StrV ''The first man on the moon was ... Let's think step by step'']))
   ]"

text \<open>Cell \<^verbatim>\<open>16759b7c\<close>.\<close>

definition cell_16759b7c :: "stmt list" where
  "cell_16759b7c = [
     assign (\<lambda>v g. g\<lparr>g_llm := Some v\<rparr>)
       (\<lambda>g. seq (construct StreamingStdOutCallbackHandler [] [])
         (\<lambda>handler. seq (construct CallbackManager [ListV [handler]] [])
         (\<lambda>manager. construct LlamaCpp []
            [(''model_path'', StrV ''/Users/rlm/Desktop/Code/llama.cpp/models/openorca-platypus2-13b.gguf.q4_0.bin''),
             (''n_gpu_layers'', IntV 1),
             (''n_batch'', IntV 512),
             (''n_ctx'', IntV 2048),
             (''f16_kv'', BoolV True),
             (''callback_manager'', manager),
             (''verbose'', BoolV True)])))
   ]"

text \<open>
  Cell \<^verbatim>\<open>8555f5bf\<close>. The values of the two \<^verbatim>\<open>PromptTemplate(...)\<close> expressions are
  the constants above; the selector is built from the values the two names are bound
  to.
\<close>

definition cell_8555f5bf :: "stmt list" where
  "cell_8555f5bf = [
     expr_stmt (\<lambda>g. import_from ''langchain.chains'' ''LLMChain''),
     expr_stmt (\<lambda>g. import_from ''langchain.chains.prompt_selector'' ''ConditionalPromptSelector''),
     expr_stmt (\<lambda>g. import_from ''langchain.prompts'' ''PromptTemplate''),
     assign (\<lambda>v g. g\<lparr>g_DEFAULT_LLAMA_SEARCH_PROMPT := Some v\<rparr>)
       (\<lambda>g. new_prompt_template DEFAULT_LLAMA_SEARCH_PROMPT),
     assign (\<lambda>v g. g\<lparr>g_DEFAULT_SEARCH_PROMPT := Some v\<rparr>)
       (\<lambda>g. new_prompt_template DEFAULT_SEARCH_PROMPT),
     assign (\<lambda>v g. g\<lparr>g_QUESTION_PROMPT_SELECTOR := Some v\<rparr>)
       (\<lambda>g. seq (name ''DEFAULT_SEARCH_PROMPT'' (g_DEFAULT_SEARCH_PROMPT g))
         (\<lambda>dflt. seq (name ''DEFAULT_LLAMA_SEARCH_PROMPT'' (g_DEFAULT_LLAMA_SEARCH_PROMPT g))
         (\<lambda>llama. new_selector dflt [(\<lambda>llm. isinstance llm LlamaCpp, llama)]))),
     assign (\<lambda>v g. g\<lparr>g_prompt := Some v\<rparr>)
       (\<lambda>g. seq (name ''QUESTION_PROMPT_SELECTOR'' (g_QUESTION_PROMPT_SELECTOR g))
         (\<lambda>selector. seq (name ''llm'' (g_llm g))
         (\<lambda>v. selector_get_prompt selector v))),
     expr_stmt (\<lambda>g. name ''prompt'' (g_prompt g))
   ]"

text \<open>Cell \<^verbatim>\<open>d0aedfd2\<close>.\<close>

definition cell_d0aedfd2 :: "stmt list" where
  "cell_d0aedfd2 = [
     assign (\<lambda>v g. g\<lparr>g_llm_chain := Some v\<rparr>)
       (\<lambda>g. seq (name ''prompt'' (g_prompt g))
         (\<lambda>p. seq (name ''llm'' (g_llm g))
         (\<lambda>v. new_chain p v))),
     assign (\<lambda>v g. g\<lparr>g_question := Some v\<rparr>)
       (\<lambda>g. ret ''What NFL team won the Super Bowl in the year that Justin Bieber was born?''),
     expr_stmt (\<lambda>g. seq (name ''llm_chain'' (g_llm_chain g))
       (\<lambda>chain. seq (name ''question'' (g_question g))
       (\<lambda>q. chain_run chain [DictV [(StrV ''question'', StrV q)]])))
   ]"

text \<open>The code cells of the notebook, in document order.\<close>

definition notebook :: "stmt list list" where
  "notebook = [cell_86178adb, cell_9cd83603, cell_8ecd2f78, cell_5eba38dc, cell_a88bf0c8,
     cell_7890a077, cell_e27baf6e, cell_915ecd4c, cell_e3d4526f, cell_16759b7c,
     cell_8555f5bf, cell_d0aedfd2]"

text \<open>A world in which no call raises.\<close>

definition calm :: "(request list \<Rightarrow> request \<Rightarrow> string) \<Rightarrow> (string \<Rightarrow> string list) \<Rightarrow> world" where
  "calm rep bs = \<lparr>raises = (\<lambda>h r. None), reply = rep, bases = bs\<rparr>"

section \<open>Reading a run\<close>

definition raised_of :: "outcome \<Rightarrow> exn option" where
  "raised_of out = fst out"

definition globals_of :: "outcome \<Rightarrow> globals" where
  "globals_of out = fst (snd out)"

definition requests_of :: "outcome \<Rightarrow> request list" where
  "requests_of out = snd (snd out)"

text \<open>
  The run of the whole notebook from no names and no history, in a world where nothing
  raises: every call site of the notebook is reached, once, in document order.
\<close>

definition notebook_run :: "(request list \<Rightarrow> request \<Rightarrow> string) \<Rightarrow> (string \<Rightarrow> string list) \<Rightarrow> outcome" where
  "notebook_run rep bs = run_cells notebook no_globals (calm rep bs) []"

text \<open>The arguments of the constructions of class \<open>C\<close> among the requests, in order.\<close>

fun constructions_of :: "string \<Rightarrow> request list \<Rightarrow> (pyval list \<times> (string \<times> pyval) list) list" where
  "constructions_of C [] = []"
| "constructions_of C (Construct D args kwargs # rs) =
     (if D = C then (args, kwargs) # constructions_of C rs else constructions_of C rs)"
| "constructions_of C (r # rs) = constructions_of C rs"

text \<open>The calls of an object's call interface among the requests: callee and arguments.\<close>

fun invocations :: "request list \<Rightarrow> (pyval \<times> pyval list) list" where
  "invocations [] = []"
| "invocations (Invoke f args # rs) = (f, args) # invocations rs"
| "invocations (r # rs) = invocations rs"

text \<open>A client is an object of one of the three client classes the notebook constructs.\<close>

fun is_client :: "pyval \<Rightarrow> bool" where
  "is_client (ObjV t args kwargs) = (fst t = Ollama \<or> fst t = LlamaCpp \<or> fst t = GPT4All)"
| "is_client v = False"

text \<open>
  A request operates on a client when the client is what is called, or is among the
  arguments, or is the llm of the chain that is run.
\<close>

fun on_client :: "request \<Rightarrow> bool" where
  "on_client (Invoke f args) = (is_client f \<or> list_ex is_client args)"
| "on_client (Construct C args kwargs) = list_ex is_client (args @ map snd kwargs)"
| "on_client (GetPrompt selector v) = is_client v"
| "on_client (NewChain p v) = is_client v"
| "on_client (RunChain chain args) = (is_client (chain_llm chain) \<or> list_ex is_client args)"
| "on_client r = False"

text \<open>A direct call of a client with one argument, a string.\<close>

fun string_prompt_call :: "request \<Rightarrow> bool" where
  "string_prompt_call (Invoke f [StrV s]) = is_client f"
| "string_prompt_call r = False"

text \<open>
  Modelled from the spec: where an Ollama client sends its requests is decided by the
  client class, which is not among the source files. The spec speaks of "a local
  model-serving process reachable over a fixed local network port" (the notebook's text
  gives \<^verbatim>\<open>localhost:11434\<close>): that fixed default is the parameter \<open>dflt\<close>; a client
  constructed with a \<^verbatim>\<open>base_url\<close> argument talks to that address instead.
\<close>

definition ollama_base_url :: "pyval \<Rightarrow> (string \<times> pyval) list \<Rightarrow> pyval" where
  "ollama_base_url dflt kwargs = (case map_of kwargs ''base_url'' of Some u \<Rightarrow> u | None \<Rightarrow> dflt)"

text \<open>
  Modelled from the spec: what makes \<^verbatim>\<open>llm_chain.run(inputs)\<close> well-formed is decided by
  the class \<^verbatim>\<open>LLMChain\<close>, which is not among the source files. The reading taken here:
  the single argument is a dict whose keys are the input variables of the chain's
  prompt, each once.
\<close>

definition well_formed_run :: "LLMChain \<Rightarrow> pyval list \<Rightarrow> bool" where
  "well_formed_run chain args =
     (case args of
        [DictV kvs] \<Rightarrow> map fst kvs = map StrV (input_variables (chain_prompt chain))
      | _ \<Rightarrow> False)"

fun chain_runs :: "request list \<Rightarrow> (LLMChain \<times> pyval list) list" where
  "chain_runs [] = []"
| "chain_runs (RunChain chain args # rs) = (chain, args) # chain_runs rs"
| "chain_runs (r # rs) = chain_runs rs"

text \<open>
  The requests \<open>rs\<close>, made one after the other after the history \<open>h\<close>, all returned:
  \<open>quiet\<close>. All returned but the last, which raised \<open>e\<close>: \<open>stops_at\<close>.
\<close>

fun quiet :: "world \<Rightarrow> request list \<Rightarrow> request list \<Rightarrow> bool" where
  "quiet w h [] = True"
| "quiet w h (r # rs) = (raises w h r = None \<and> quiet w (h @ [r]) rs)"

fun stops_at :: "world \<Rightarrow> request list \<Rightarrow> request list \<Rightarrow> exn \<Rightarrow> bool" where
  "stops_at w h [] e = False"
| "stops_at w h (r # rs) e =
     (if rs = [] then raises w h r = Some e
      else raises w h r = None \<and> stops_at w (h @ [r]) rs e)"

text \<open>
  A computation handles nothing: the requests it makes all return, or all but the last,
  whose exception is the computation's; the only exception of its own is the
  \<^verbatim>\<open>NameError\<close> of an unbound name.
\<close>

definition unhandled :: "'a io \<Rightarrow> bool" where
  "unhandled m = (\<forall>w h. \<exists>new. snd (m w h) = h @ new \<and>
     (case fst (m w h) of
        Inr x \<Rightarrow> quiet w h new
      | Inl e \<Rightarrow> stops_at w h new e \<or> ((\<exists>x. e = NameError x) \<and> quiet w h new)))"

text \<open>The objects the notebook constructs, given the base classes \<open>bs\<close>.\<close>

definition handler_obj :: "(string \<Rightarrow> string list) \<Rightarrow> pyval" where
  "handler_obj bs =
     ObjV (StreamingStdOutCallbackHandler, bs StreamingStdOutCallbackHandler) [] []"

definition manager_obj :: "(string \<Rightarrow> string list) \<Rightarrow> pyval" where
  "manager_obj bs = ObjV (CallbackManager, bs CallbackManager) [ListV [handler_obj bs]] []"

definition llamacpp_kwargs :: "(string \<Rightarrow> string list) \<Rightarrow> (string \<times> pyval) list" where
  "llamacpp_kwargs bs =
     [(''model_path'', StrV ''/Users/rlm/Desktop/Code/llama.cpp/models/openorca-platypus2-13b.gguf.q4_0.bin''),
      (''n_gpu_layers'', IntV 1),
      (''n_batch'', IntV 512),
      (''n_ctx'', IntV 2048),
      (''f16_kv'', BoolV True),
      (''callback_manager'', manager_obj bs),
      (''verbose'', BoolV True)]"

definition llamacpp_obj :: "(string \<Rightarrow> string list) \<Rightarrow> pyval" where
  "llamacpp_obj bs = ObjV (LlamaCpp, bs LlamaCpp) [] (llamacpp_kwargs bs)"

definition ollama_obj :: "(string \<Rightarrow> string list) \<Rightarrow> (string \<times> pyval) list \<Rightarrow> pyval" where
  "ollama_obj bs kwargs = ObjV (Ollama, bs Ollama) [] kwargs"

definition gpt4all_obj :: "(string \<Rightarrow> string list) \<Rightarrow> pyval" where
  "gpt4all_obj bs = ObjV (GPT4All, bs GPT4All) []
     [(''model'', StrV ''/Users/rlm/Desktop/Code/gpt4all/models/nous-hermes-13b.ggmlv3.q4_0.bin'')]"

text \<open>The classes constructed and the names imported among the requests, in order.\<close>

fun constructed_classes :: "request list \<Rightarrow> string list" where
  "constructed_classes [] = []"
| "constructed_classes (Construct C args kwargs # rs) = C # constructed_classes rs"
| "constructed_classes (r # rs) = constructed_classes rs"

fun imported_names :: "request list \<Rightarrow> string list" where
  "imported_names [] = []"
| "imported_names (Import module x # rs) = x # imported_names rs"
| "imported_names (r # rs) = imported_names rs"

text \<open>
  A world in which the model-serving process cannot be reached: every call of a client
  raises; nothing else does.
\<close>

definition offline :: world where
  "offline = \<lparr>
     raises = (\<lambda>h r. case r of
        Invoke f args \<Rightarrow> Some (Raised ''ConnectionError'' ''connection refused'')
      | _ \<Rightarrow> None),
     reply = (\<lambda>h r. []),
     bases = (\<lambda>C. [''BaseLLM''])\<rparr>"

section \<open>The selector in a store\<close>

text \<open>
  Python objects have identity and can be modified in place. To say that a call modifies
  no object, the objects are put in a store: an address holds an object, an object
  refers to another by its address, and a call takes the store to the store after it.

  A condition of a selector is any callable on the llm. The notebook's is
  \<^verbatim>\<open>lambda llm: isinstance(llm, C)\<close>; every other callable is one that decides from
  the type and the attributes of its argument and may rewrite those attributes.
\<close>

type_synonym addr = nat

datatype callable =
    IsInstanceLambda string
  | Effectful "pytype \<Rightarrow> (string \<times> pyval) list \<Rightarrow> bool"
      "(string \<times> pyval) list \<Rightarrow> (string \<times> pyval) list"

text \<open>
  An object in the store: an instance of some class with its attributes (a client, for
  one), a prompt template, or a selector, which holds the address of its default prompt
  and its list of conditionals, each a callable and the address of a template.
\<close>

datatype hobj =
    Instance pytype "(string \<times> pyval) list"
  | TemplateObj PromptTemplate
  | SelectorObj addr "(callable \<times> addr) list"

type_synonym store = "addr \<Rightarrow> hobj"

text \<open>An object of the store as a value: its type and its attributes.\<close>

fun view :: "hobj \<Rightarrow> pyval" where
  "view (Instance t attrs) = ObjV t [] attrs"
| "view (TemplateObj p) = ObjV (''PromptTemplate'', [''object'']) [] []"
| "view (SelectorObj dflt conds) = ObjV (''ConditionalPromptSelector'', [''object'']) [] []"

text \<open>
  Calling a condition on the object at an address. \<^verbatim>\<open>isinstance\<close> reads the type of
  the object and writes nothing.
\<close>

fun call_condition :: "callable \<Rightarrow> addr \<Rightarrow> store \<Rightarrow> bool \<times> store" where
  "call_condition (IsInstanceLambda C) a S = (isinstance (view (S a)) C, S)"
| "call_condition (Effectful decide effect) a S =
     (case S a of
        Instance t attrs \<Rightarrow> (decide t attrs, S(a := Instance t (effect attrs)))
      | other \<Rightarrow> (decide (type_of (view other)) [], S))"

text \<open>
  Modelled from the spec: \<^verbatim>\<open>ConditionalPromptSelector.get_prompt\<close> again (it is not
  among the source files), now on the selector at the address \<open>self\<close> and the llm at
  the address \<open>llm\<close>. As above it tries the conditions in the order of the list and
  returns the template of the first that holds, and the default when none holds. The
  spec calls it a choice "between two static prompt templates": the method reads the
  selector and writes nothing of its own; the store after it is what the conditions it
  called have left.
\<close>

fun select_prompt_in :: "(callable \<times> addr) list \<Rightarrow> addr \<Rightarrow> addr \<Rightarrow> store \<Rightarrow> addr \<times> store" where
  "select_prompt_in [] dflt llm S = (dflt, S)"
| "select_prompt_in ((condition, prompt) # rest) dflt llm S =
     (case call_condition condition llm S of
        (True, S') \<Rightarrow> (prompt, S')
      | (False, S') \<Rightarrow> select_prompt_in rest dflt llm S')"

definition get_prompt_in :: "addr \<Rightarrow> addr \<Rightarrow> store \<Rightarrow> (exn + addr) \<times> store" where
  "get_prompt_in self llm S =
     (case S self of
        SelectorObj dflt conds \<Rightarrow>
          (case select_prompt_in conds dflt llm S of (p, S') \<Rightarrow> (Inr p, S'))
      | other \<Rightarrow> (Inl (Raised ''AttributeError'' ''conditionals''), S))"

text \<open>
  Cell \<^verbatim>\<open>8555f5bf\<close>: the object that
  \<^verbatim>\<open>ConditionalPromptSelector(default_prompt=DEFAULT_SEARCH_PROMPT, conditionals=[(lambda llm: isinstance(llm, LlamaCpp), DEFAULT_LLAMA_SEARCH_PROMPT)])\<close>
  constructs when the names \<^verbatim>\<open>DEFAULT_SEARCH_PROMPT\<close> and
  \<^verbatim>\<open>DEFAULT_LLAMA_SEARCH_PROMPT\<close> hold the addresses \<open>dflt\<close> and \<open>llama\<close>.
\<close>

definition QUESTION_PROMPT_SELECTOR_in :: "addr \<Rightarrow> addr \<Rightarrow> hobj" where
  "QUESTION_PROMPT_SELECTOR_in dflt llama = SelectorObj dflt [(IsInstanceLambda LlamaCpp, llama)]"

text \<open>
  A store with the notebook's two templates and its selector, a \<^verbatim>\<open>LlamaCpp\<close> client
  and a \<^verbatim>\<open>GPT4All\<close> client.
\<close>

definition notebook_store :: store where
  "notebook_store = (\<lambda>a. Instance (''object'', []) [])
     (0 := TemplateObj DEFAULT_LLAMA_SEARCH_PROMPT,
      1 := TemplateObj DEFAULT_SEARCH_PROMPT,
      2 := QUESTION_PROMPT_SELECTOR_in 1 0,
      3 := Instance (LlamaCpp, [''BaseLLM'']) [(''n_ctx'', IntV 2048)],
      4 := Instance (GPT4All, [''BaseLLM''])
             [(''model'', StrV ''/Users/rlm/Desktop/Code/gpt4all/models/nous-hermes-13b.ggmlv3.q4_0.bin'')])"

text \<open>
  The same store with another selector, not the notebook's: its one condition holds of
  an llm that has no attribute \<^verbatim>\<open>seen\<close>, and gives the llm that attribute.
\<close>

definition marking_store :: store where
  "marking_store = notebook_store
     (2 := SelectorObj 1
        [(Effectful (\<lambda>t attrs. map_of attrs ''seen'' = None)
            (\<lambda>attrs. (''seen'', BoolV True) # attrs), 0)])"

section \<open>Unfolding the model\<close>

lemmas io_defs = ret_def throw_def seq_def call_def magic_def import_from_def construct_def
  invoke_def new_prompt_template_def new_selector_def selector_get_prompt_def new_chain_def
  chain_run_def name_def assign_def expr_stmt_def

lemmas cell_defs = cell_86178adb_def cell_9cd83603_def cell_8ecd2f78_def cell_5eba38dc_def
  cell_a88bf0c8_def cell_7890a077_def cell_e27baf6e_def cell_915ecd4c_def cell_e3d4526f_def
  cell_16759b7c_def cell_8555f5bf_def cell_d0aedfd2_def

lemmas class_defs = Ollama_def LlamaCpp_def GPT4All_def CallbackManager_def
  StreamingStdOutCallbackHandler_def

lemmas obj_defs = handler_obj_def manager_obj_def llamacpp_kwargs_def llamacpp_obj_def
  ollama_obj_def gpt4all_obj_def

lemmas run_defs = notebook_run_def notebook_def cell_defs io_defs calm_def no_globals_def
  requests_of_def

lemma outcome_None:
  "raised_of out = None \<Longrightarrow> out = (None, globals_of out, requests_of out)"
  by (simp add: raised_of_def globals_of_def requests_of_def prod_eq_iff)

lemma run_cells_append:
  "run_cells (a @ b) g w h = (None, g2, h2) \<Longrightarrow>
   \<exists>g1 h1. run_cells a g w h = (None, g1, h1) \<and> run_cells b g1 w h1 = (None, g2, h2)"
proof (induction a arbitrary: g h)
  case Nil
  then show ?case by simp
next
  case (Cons c a)
  then show ?case by (auto split: prod.splits option.splits)
qed

lemma run_cells_single:
  "run_cells [c] g w h = (None, g1, h1) \<Longrightarrow> run_cell c g w h = (None, g1, h1)"
  by (auto split: prod.splits option.splits)

section \<open>The selector chooses by client type\<close>

lemma get_prompt_QUESTION_PROMPT_SELECTOR:
  "get_prompt QUESTION_PROMPT_SELECTOR llm =
     (if isinstance llm LlamaCpp then DEFAULT_LLAMA_SEARCH_PROMPT else DEFAULT_SEARCH_PROMPT)"
  by (simp add: get_prompt_def QUESTION_PROMPT_SELECTOR_def)

lemma isinstance_type_of:
  "type_of a = type_of b \<Longrightarrow> isinstance a C = isinstance b C"
  by (simp add: isinstance_def)

lemma templates_differ: "DEFAULT_LLAMA_SEARCH_PROMPT \<noteq> DEFAULT_SEARCH_PROMPT"
  by (simp add: DEFAULT_LLAMA_SEARCH_PROMPT_def DEFAULT_SEARCH_PROMPT_def)

lemma llama_markers:
  "str_contains (template DEFAULT_LLAMA_SEARCH_PROMPT) ''<<SYS>>''"
  "str_contains (template DEFAULT_LLAMA_SEARCH_PROMPT) ''[INST]''"
  by (simp_all add: DEFAULT_LLAMA_SEARCH_PROMPT_def)

lemma default_no_markers:
  "\<not> str_contains (template DEFAULT_SEARCH_PROMPT) ''<<SYS>>''"
  "\<not> str_contains (template DEFAULT_SEARCH_PROMPT) ''[INST]''"
  by (simp_all add: DEFAULT_SEARCH_PROMPT_def)

lemma input_variables_question:
  "input_variables DEFAULT_LLAMA_SEARCH_PROMPT = [''question'']"
  "input_variables DEFAULT_SEARCH_PROMPT = [''question'']"
  by (simp_all add: DEFAULT_LLAMA_SEARCH_PROMPT_def DEFAULT_SEARCH_PROMPT_def)

text \<open>
  C1. For every llm object, \<^verbatim>\<open>QUESTION_PROMPT_SELECTOR.get_prompt(llm)\<close> returns
  \<^verbatim>\<open>DEFAULT_LLAMA_SEARCH_PROMPT\<close> when llm is an instance of \<^verbatim>\<open>LlamaCpp\<close> and
  \<^verbatim>\<open>DEFAULT_SEARCH_PROMPT\<close>, the default prompt, otherwise; the two are different
  templates, and the choice depends only on the type of llm: two objects of the same
  type get the same template.
\<close>

theorem selector_chooses_by_client_type:
  "get_prompt QUESTION_PROMPT_SELECTOR llm =
     (if isinstance llm LlamaCpp then DEFAULT_LLAMA_SEARCH_PROMPT else DEFAULT_SEARCH_PROMPT)
   \<and> default_prompt QUESTION_PROMPT_SELECTOR = DEFAULT_SEARCH_PROMPT
   \<and> DEFAULT_LLAMA_SEARCH_PROMPT \<noteq> DEFAULT_SEARCH_PROMPT
   \<and> (type_of llm' = type_of llm \<longrightarrow>
        get_prompt QUESTION_PROMPT_SELECTOR llm' = get_prompt QUESTION_PROMPT_SELECTOR llm)"
proof -
  have "type_of llm' = type_of llm \<Longrightarrow>
        get_prompt QUESTION_PROMPT_SELECTOR llm' = get_prompt QUESTION_PROMPT_SELECTOR llm"
    using isinstance_type_of [of llm' llm LlamaCpp]
    by (simp add: get_prompt_QUESTION_PROMPT_SELECTOR)
  moreover have "default_prompt QUESTION_PROMPT_SELECTOR = DEFAULT_SEARCH_PROMPT"
    by (simp add: QUESTION_PROMPT_SELECTOR_def)
  ultimately show ?thesis
    using get_prompt_QUESTION_PROMPT_SELECTOR [of llm] templates_differ by blast
qed

text \<open>
  At two \<^verbatim>\<open>LlamaCpp\<close> objects that differ in their arguments, and so only in what they
  hold, not in their type.
\<close>

theorem selector_chooses_by_client_type_witness:
  "type_of (ObjV (LlamaCpp, [''LLM'']) [] [(''n_ctx'', IntV 2048)])
     = type_of (ObjV (LlamaCpp, [''LLM'']) [] [(''n_ctx'', IntV 512)])
   \<and> get_prompt QUESTION_PROMPT_SELECTOR (ObjV (LlamaCpp, [''LLM'']) [] [(''n_ctx'', IntV 2048)])
     = get_prompt QUESTION_PROMPT_SELECTOR (ObjV (LlamaCpp, [''LLM'']) [] [(''n_ctx'', IntV 512)])
   \<and> get_prompt QUESTION_PROMPT_SELECTOR (ObjV (LlamaCpp, [''LLM'']) [] [(''n_ctx'', IntV 512)])
     = DEFAULT_LLAMA_SEARCH_PROMPT"
  using selector_chooses_by_client_type
    [of "ObjV (LlamaCpp, [''LLM'']) [] [(''n_ctx'', IntV 512)]"
        "ObjV (LlamaCpp, [''LLM'']) [] [(''n_ctx'', IntV 2048)]"]
  by (simp add: isinstance_def)

section \<open>The prompt the notebook selects\<close>

lemma cell_16759b7c_binds:
  "run_cell cell_16759b7c g w h = (None, g1, h1) \<Longrightarrow>
     g1 = g\<lparr>g_llm := Some (llamacpp_obj (bases w))\<rparr>"
  by (auto simp: cell_16759b7c_def io_defs obj_defs split: option.splits)

lemma cell_8555f5bf_binds:
  "run_cell cell_8555f5bf g w h = (None, g2, h2) \<Longrightarrow>
     g_llm g2 = g_llm g \<and>
     g_QUESTION_PROMPT_SELECTOR g2 = Some QUESTION_PROMPT_SELECTOR \<and>
     (\<exists>v. g_llm g = Some v \<and> g_prompt g2 = Some (get_prompt QUESTION_PROMPT_SELECTOR v))"
  by (auto simp: cell_8555f5bf_def io_defs QUESTION_PROMPT_SELECTOR_def split: option.splits)

lemma notebook_take_11:
  "take 11 notebook = take 9 notebook @ [cell_16759b7c] @ [cell_8555f5bf]"
  by (simp add: notebook_def)

text \<open>
  C2. The prompt-selection cell \<^verbatim>\<open>8555f5bf\<close> is the eleventh code cell and the cell
  \<^verbatim>\<open>16759b7c\<close> the one before it. When the cells are run in document order up to and
  including the prompt-selection cell and none raises, then, whatever the names and the
  history were at the start: \<^verbatim>\<open>llm\<close> is bound to the \<^verbatim>\<open>LlamaCpp\<close> object that the
  preceding cell constructed, the selector is the one of C1, and \<^verbatim>\<open>prompt\<close> is bound
  to \<^verbatim>\<open>DEFAULT_LLAMA_SEARCH_PROMPT\<close>, whose template contains the markers
  \<^verbatim>\<open><<SYS>>\<close> and \<^verbatim>\<open>[INST]\<close>, and which is not the default template.
\<close>

theorem notebook_prompt_is_llama_prompt:
  assumes "run_cells (take 11 notebook) g w h = (None, g2, h2)"
  shows "take 11 notebook = take 9 notebook @ [cell_16759b7c, cell_8555f5bf]
    \<and> g_llm g2 = Some (llamacpp_obj (bases w))
    \<and> isinstance (llamacpp_obj (bases w)) LlamaCpp
    \<and> g_QUESTION_PROMPT_SELECTOR g2 = Some QUESTION_PROMPT_SELECTOR
    \<and> g_prompt g2 = Some DEFAULT_LLAMA_SEARCH_PROMPT
    \<and> str_contains (template DEFAULT_LLAMA_SEARCH_PROMPT) ''<<SYS>>''
    \<and> str_contains (template DEFAULT_LLAMA_SEARCH_PROMPT) ''[INST]''
    \<and> DEFAULT_LLAMA_SEARCH_PROMPT \<noteq> DEFAULT_SEARCH_PROMPT"
proof -
  from assms obtain g0 h0 g1 h1 where
    "run_cells [cell_16759b7c] g0 w h0 = (None, g1, h1)"
    "run_cells [cell_8555f5bf] g1 w h1 = (None, g2, h2)"
    unfolding notebook_take_11 by (blast dest: run_cells_append)
  then have 1: "run_cell cell_16759b7c g0 w h0 = (None, g1, h1)"
    and 2: "run_cell cell_8555f5bf g1 w h1 = (None, g2, h2)"
    by (simp_all add: run_cells_single)
  have i: "isinstance (llamacpp_obj (bases w)) LlamaCpp"
    by (simp add: isinstance_def llamacpp_obj_def)
  from cell_16759b7c_binds [OF 1] have "g_llm g1 = Some (llamacpp_obj (bases w))" by simp
  with cell_8555f5bf_binds [OF 2] i show ?thesis
    using llama_markers templates_differ notebook_take_11
    by (auto simp: get_prompt_QUESTION_PROMPT_SELECTOR)
qed

text \<open>The run from no names and no history, in a world where nothing raises.\<close>

theorem notebook_prompt_is_llama_prompt_witness:
  "raised_of (run_cells (take 11 notebook) no_globals (calm (\<lambda>h r. []) (\<lambda>C. [''BaseLLM''])) [])
     = None
   \<and> g_prompt (globals_of
        (run_cells (take 11 notebook) no_globals (calm (\<lambda>h r. []) (\<lambda>C. [''BaseLLM''])) []))
     = Some DEFAULT_LLAMA_SEARCH_PROMPT
   \<and> g_llm (globals_of
        (run_cells (take 11 notebook) no_globals (calm (\<lambda>h r. []) (\<lambda>C. [''BaseLLM''])) []))
     = Some (llamacpp_obj (\<lambda>C. [''BaseLLM'']))"
proof -
  let ?out = "run_cells (take 11 notebook) no_globals (calm (\<lambda>h r. []) (\<lambda>C. [''BaseLLM''])) []"
  have r: "raised_of ?out = None"
    by (simp add: notebook_def cell_defs io_defs calm_def no_globals_def raised_of_def)
  from notebook_prompt_is_llama_prompt [OF outcome_None [OF r]]
  have "g_prompt (globals_of ?out) = Some DEFAULT_LLAMA_SEARCH_PROMPT"
    and "g_llm (globals_of ?out)
      = Some (llamacpp_obj (bases (calm (\<lambda>h r. []) (\<lambda>C. [''BaseLLM'']))))"
    by blast+
  with r show ?thesis
    by (simp add: calm_def)
qed

section \<open>What the notebook passes to the library\<close>

text \<open>
  The run of the whole notebook in a world where nothing raises, in full: no exception,
  the names at the end, and the requests in the order they are made.
\<close>

lemma notebook_run_outcome:
  "notebook_run rep bs =
     (None,
      \<lparr>g_llm = Some (llamacpp_obj bs),
       g_DEFAULT_LLAMA_SEARCH_PROMPT = Some DEFAULT_LLAMA_SEARCH_PROMPT,
       g_DEFAULT_SEARCH_PROMPT = Some DEFAULT_SEARCH_PROMPT,
       g_QUESTION_PROMPT_SELECTOR = Some QUESTION_PROMPT_SELECTOR,
       g_prompt = Some DEFAULT_LLAMA_SEARCH_PROMPT,
       g_llm_chain = Some \<lparr>chain_prompt = DEFAULT_LLAMA_SEARCH_PROMPT, chain_llm = llamacpp_obj bs\<rparr>,
       g_question = Some ''What NFL team won the Super Bowl in the year that Justin Bieber was born?''\<rparr>,
      [Import ''langchain.llms'' ''Ollama'',
       Construct Ollama [] [(''model'', StrV ''llama2'')],
       Invoke (ollama_obj bs [(''model'', StrV ''llama2'')])
         [StrV ''The first man on the moon was ...''],
       Import ''langchain.callbacks.manager'' ''CallbackManager'',
       Import ''langchain.callbacks.streaming_stdout'' ''StreamingStdOutCallbackHandler'',
       Construct StreamingStdOutCallbackHandler [] [],
       Construct CallbackManager [ListV [handler_obj bs]] [],
       Construct Ollama [] [(''model'', StrV ''llama2''), (''callback_manager'', manager_obj bs)],
       Invoke (ollama_obj bs [(''model'', StrV ''llama2''), (''callback_manager'', manager_obj bs)])
         [StrV ''The first man on the moon was ...''],
       Import ''langchain.llms'' ''Ollama'',
       Construct Ollama [] [(''model'', StrV ''llama2:13b'')],
       Invoke (ollama_obj bs [(''model'', StrV ''llama2:13b'')])
         [StrV ''The first man on the moon was ... think step by step''],
       Magic ''%env CMAKE_ARGS=\"-DLLAMA_METAL=on\"'',
       Magic ''%env FORCE_CMAKE=1'',
       Magic ''%pip install -U llama-cpp-python --no-cache-dirclear`'',
       Import ''langchain.callbacks.manager'' ''CallbackManager'',
       Import ''langchain.callbacks.streaming_stdout'' ''StreamingStdOutCallbackHandler'',
       Import ''langchain.llms'' ''LlamaCpp'',
       Construct StreamingStdOutCallbackHandler [] [],
       Construct CallbackManager [ListV [handler_obj bs]] [],
       Construct LlamaCpp [] (llamacpp_kwargs bs),
       Invoke (llamacpp_obj bs)
         [StrV ''The first man on the moon was ... Let's think step by step''],
       Magic ''pip install gpt4all'',
       Import ''langchain.llms'' ''GPT4All'',
       Construct GPT4All []
         [(''model'', StrV ''/Users/rlm/Desktop/Code/gpt4all/models/nous-hermes-13b.ggmlv3.q4_0.bin'')],
       Invoke (gpt4all_obj bs)
         [StrV ''The first man on the moon was ... Let's think step by step''],
       Construct StreamingStdOutCallbackHandler [] [],
       Construct CallbackManager [ListV [handler_obj bs]] [],
       Construct LlamaCpp [] (llamacpp_kwargs bs),
       Import ''langchain.chains'' ''LLMChain'',
       Import ''langchain.chains.prompt_selector'' ''ConditionalPromptSelector'',
       Import ''langchain.prompts'' ''PromptTemplate'',
       NewPromptTemplate DEFAULT_LLAMA_SEARCH_PROMPT,
       NewPromptTemplate DEFAULT_SEARCH_PROMPT,
       NewSelector DEFAULT_SEARCH_PROMPT
         [(\<lambda>llm. isinstance llm LlamaCpp, DEFAULT_LLAMA_SEARCH_PROMPT)],
       GetPrompt QUESTION_PROMPT_SELECTOR (llamacpp_obj bs),
       NewChain DEFAULT_LLAMA_SEARCH_PROMPT (llamacpp_obj bs),
       RunChain \<lparr>chain_prompt = DEFAULT_LLAMA_SEARCH_PROMPT, chain_llm = llamacpp_obj bs\<rparr>
         [DictV [(StrV ''question'',
            StrV ''What NFL team won the Super Bowl in the year that Justin Bieber was born?'')]]])"
  by (simp add: run_defs obj_defs get_prompt_def QUESTION_PROMPT_SELECTOR_def isinstance_def)

text \<open>
  The claim C3 as stated, that the \<^verbatim>\<open>LlamaCpp\<close> constructions pass the model path plus
  exactly the four fields \<^verbatim>\<open>n_gpu_layers\<close>, \<^verbatim>\<open>n_batch\<close>, \<^verbatim>\<open>n_ctx\<close> and \<^verbatim>\<open>f16_kv\<close>,
  fails: the keyword arguments of these constructions are not these five.
\<close>

theorem llamacpp_exactly_four_fields_counterexample:
  "\<not> list_all (\<lambda>(args, kwargs). args = [] \<and> map fst kwargs =
          [''model_path'', ''n_gpu_layers'', ''n_batch'', ''n_ctx'', ''f16_kv''])
       (constructions_of LlamaCpp
          (requests_of (notebook_run (\<lambda>h r. []) (\<lambda>C. [''BaseLLM'']))))"
  by (simp add: notebook_run_outcome requests_of_def obj_defs class_defs)

text \<open>
  C3, amended. Every client construction in the notebook passes its configuration
  values verbatim as keyword arguments (there is no positional argument): the three
  \<^verbatim>\<open>Ollama\<close> constructions pass the model name, the second also a callback manager;
  the two \<^verbatim>\<open>LlamaCpp\<close> constructions pass the path of the local weights file, the four
  fields \<^verbatim>\<open>n_gpu_layers=1\<close>, \<^verbatim>\<open>n_batch=512\<close>, \<^verbatim>\<open>n_ctx=2048\<close>, \<^verbatim>\<open>f16_kv=True\<close> and,
  besides these, \<^verbatim>\<open>callback_manager=CallbackManager([StreamingStdOutCallbackHandler()])\<close>
  and \<^verbatim>\<open>verbose=True\<close>; the \<^verbatim>\<open>GPT4All\<close> construction passes only the path of a local
  model file.
\<close>

theorem client_constructions_verbatim:
  "constructions_of Ollama (requests_of (notebook_run rep bs)) =
     [([], [(''model'', StrV ''llama2'')]),
      ([], [(''model'', StrV ''llama2''), (''callback_manager'', manager_obj bs)]),
      ([], [(''model'', StrV ''llama2:13b'')])]
   \<and> constructions_of LlamaCpp (requests_of (notebook_run rep bs)) =
     [([], [(''model_path'', StrV ''/Users/rlm/Desktop/Code/llama.cpp/models/openorca-platypus2-13b.gguf.q4_0.bin''),
            (''n_gpu_layers'', IntV 1), (''n_batch'', IntV 512), (''n_ctx'', IntV 2048),
            (''f16_kv'', BoolV True), (''callback_manager'', manager_obj bs),
            (''verbose'', BoolV True)]),
      ([], [(''model_path'', StrV ''/Users/rlm/Desktop/Code/llama.cpp/models/openorca-platypus2-13b.gguf.q4_0.bin''),
            (''n_gpu_layers'', IntV 1), (''n_batch'', IntV 512), (''n_ctx'', IntV 2048),
            (''f16_kv'', BoolV True), (''callback_manager'', manager_obj bs),
            (''verbose'', BoolV True)])]
   \<and> constructions_of GPT4All (requests_of (notebook_run rep bs)) =
     [([], [(''model'', StrV ''/Users/rlm/Desktop/Code/gpt4all/models/nous-hermes-13b.ggmlv3.q4_0.bin'')])]
   \<and> manager_obj bs =
       ObjV (CallbackManager, bs CallbackManager)
         [ListV [ObjV (StreamingStdOutCallbackHandler, bs StreamingStdOutCallbackHandler) [] []]] []"
  by (simp add: notebook_run_outcome requests_of_def obj_defs class_defs)

text \<open>
  The claim C4 as stated, that every operation on a constructed client is a call of the
  client with a string prompt, fails: among the requests that operate on a client there
  are some that are not such a call.
\<close>

theorem every_operation_string_call_counterexample:
  "\<not> list_all (\<lambda>r. on_client r \<longrightarrow> string_prompt_call r)
       (requests_of (notebook_run (\<lambda>h r. []) (\<lambda>C. [''BaseLLM''])))"
  by (simp add: notebook_run_outcome requests_of_def obj_defs class_defs)

text \<open>
  C4, amended. Every direct call of a client in the notebook, five in all, passes exactly
  one argument, a string prompt, and what is called is the client an earlier statement
  constructed; such a call, when it returns, returns a string. The other operations on
  a client are three: the client is handed to
  \<^verbatim>\<open>QUESTION_PROMPT_SELECTOR.get_prompt\<close>, it is handed to the constructor
  \<^verbatim>\<open>LLMChain(prompt=prompt, llm=llm)\<close>, and the final cell invokes \<^verbatim>\<open>llm_chain.run\<close> on
  the chain that holds it, with a dict argument \<^verbatim>\<open>{"question": question}\<close>, not a
  string.
\<close>

theorem client_operations:
  "invocations (requests_of (notebook_run rep bs)) =
     [(ollama_obj bs [(''model'', StrV ''llama2'')],
         [StrV ''The first man on the moon was ...'']),
      (ollama_obj bs [(''model'', StrV ''llama2''), (''callback_manager'', manager_obj bs)],
         [StrV ''The first man on the moon was ...'']),
      (ollama_obj bs [(''model'', StrV ''llama2:13b'')],
         [StrV ''The first man on the moon was ... think step by step'']),
      (llamacpp_obj bs,
         [StrV ''The first man on the moon was ... Let's think step by step'']),
      (gpt4all_obj bs,
         [StrV ''The first man on the moon was ... Let's think step by step''])]
   \<and> filter (\<lambda>r. on_client r \<and> \<not> string_prompt_call r) (requests_of (notebook_run rep bs)) =
     [GetPrompt QUESTION_PROMPT_SELECTOR (llamacpp_obj bs),
      NewChain DEFAULT_LLAMA_SEARCH_PROMPT (llamacpp_obj bs),
      RunChain \<lparr>chain_prompt = DEFAULT_LLAMA_SEARCH_PROMPT, chain_llm = llamacpp_obj bs\<rparr>
        [DictV [(StrV ''question'',
           StrV ''What NFL team won the Super Bowl in the year that Justin Bieber was born?'')]]]
   \<and> length (filter string_prompt_call (requests_of (notebook_run rep bs))) = 5
   \<and> (invoke f args w h = (Inr v, h') \<longrightarrow> (\<exists>s. v = StrV s))"
  by (auto simp: notebook_run_outcome requests_of_def obj_defs class_defs invoke_def call_def
      split: option.splits)

text \<open>
  The call of the \<^verbatim>\<open>GPT4All\<close> client in cell \<^verbatim>\<open>e3d4526f\<close>, in a world where nothing
  raises and every reply is the same string.
\<close>

theorem client_operations_witness:
  "invoke (gpt4all_obj (\<lambda>C. [''BaseLLM'']))
       [StrV ''The first man on the moon was ... Let's think step by step'']
       (calm (\<lambda>h r. ''Neil Armstrong'') (\<lambda>C. [''BaseLLM''])) []
     = (Inr (StrV ''Neil Armstrong''),
        [Invoke (gpt4all_obj (\<lambda>C. [''BaseLLM'']))
           [StrV ''The first man on the moon was ... Let's think step by step'']])
   \<and> (\<exists>s. StrV ''Neil Armstrong'' = StrV s)
   \<and> length (filter string_prompt_call
        (requests_of (notebook_run (\<lambda>h r. ''Neil Armstrong'') (\<lambda>C. [''BaseLLM''])))) = 5"
proof -
  have r: "invoke (gpt4all_obj (\<lambda>C. [''BaseLLM'']))
       [StrV ''The first man on the moon was ... Let's think step by step'']
       (calm (\<lambda>h r. ''Neil Armstrong'') (\<lambda>C. [''BaseLLM''])) []
     = (Inr (StrV ''Neil Armstrong''),
        [Invoke (gpt4all_obj (\<lambda>C. [''BaseLLM'']))
           [StrV ''The first man on the moon was ... Let's think step by step'']])"
    by (simp add: invoke_def call_def calm_def)
  from client_operations
    [of "\<lambda>h r. ''Neil Armstrong''" "\<lambda>C. [''BaseLLM'']" "gpt4all_obj (\<lambda>C. [''BaseLLM''])"
        "[StrV ''The first man on the moon was ... Let's think step by step'']"
        "calm (\<lambda>h r. ''Neil Armstrong'') (\<lambda>C. [''BaseLLM''])" "[]" "StrV ''Neil Armstrong''"
        "[Invoke (gpt4all_obj (\<lambda>C. [''BaseLLM'']))
           [StrV ''The first man on the moon was ... Let's think step by step'']]"] r
  show ?thesis by blast
qed

text \<open>
  C5. Every callback manager constructed in the notebook, three in all, is constructed
  from one list that holds one handler, an object of the imported class
  \<^verbatim>\<open>StreamingStdOutCallbackHandler\<close> constructed without arguments; the classes the
  notebook constructs objects of are all imported ones, none its own.
\<close>

theorem callback_managers_register_stdout_handler:
  "constructions_of CallbackManager (requests_of (notebook_run rep bs)) =
     [([ListV [handler_obj bs]], []), ([ListV [handler_obj bs]], []),
      ([ListV [handler_obj bs]], [])]
   \<and> handler_obj bs =
       ObjV (StreamingStdOutCallbackHandler, bs StreamingStdOutCallbackHandler) [] []
   \<and> constructions_of StreamingStdOutCallbackHandler (requests_of (notebook_run rep bs)) =
     [([], []), ([], []), ([], [])]
   \<and> remdups (constructed_classes (requests_of (notebook_run rep bs))) =
     [Ollama, GPT4All, StreamingStdOutCallbackHandler, CallbackManager, LlamaCpp]
   \<and> set (constructed_classes (requests_of (notebook_run rep bs)))
       \<subseteq> set (imported_names (requests_of (notebook_run rep bs)))"
  by (simp add: notebook_run_outcome requests_of_def obj_defs class_defs)

text \<open>
  C6. Every \<^verbatim>\<open>Ollama\<close> construction in the notebook, three in all, names the model by a
  string, \<^verbatim>\<open>"llama2"\<close> or \<^verbatim>\<open>"llama2:13b"\<close>; its only other argument, in one of them, is
  the callback manager. None passes an address, so each of the clients talks to the
  fixed default address of the local model-serving process.
\<close>

theorem ollama_constructions_by_model_name:
  "constructions_of Ollama (requests_of (notebook_run rep bs)) =
     [([], [(''model'', StrV ''llama2'')]),
      ([], [(''model'', StrV ''llama2''), (''callback_manager'', manager_obj bs)]),
      ([], [(''model'', StrV ''llama2:13b'')])]
   \<and> map (\<lambda>(args, kwargs). map fst kwargs)
        (constructions_of Ollama (requests_of (notebook_run rep bs))) =
     [[''model''], [''model'', ''callback_manager''], [''model'']]
   \<and> map (\<lambda>(args, kwargs). ollama_base_url dflt kwargs)
        (constructions_of Ollama (requests_of (notebook_run rep bs))) = [dflt, dflt, dflt]"
  by (simp add: notebook_run_outcome requests_of_def obj_defs class_defs ollama_base_url_def)

section \<open>Exceptions are not handled\<close>

lemma quiet_append: "quiet w h (a @ b) = (quiet w h a \<and> quiet w (h @ a) b)"
  by (induction a arbitrary: h) auto

lemma stops_at_append: "quiet w h a \<Longrightarrow> stops_at w (h @ a) b e \<Longrightarrow> stops_at w h (a @ b) e"
proof (induction a arbitrary: h)
  case Nil
  then show ?case by simp
next
  case (Cons r a)
  from Cons.prems(2) have "b \<noteq> []" by (cases b) auto
  with Cons show ?case by simp
qed

lemma quiet_no_raise:
  "quiet w h (before @ r # after) \<Longrightarrow> raises w (h @ before) r \<noteq> Some e"
  by (simp add: quiet_append)

lemma stops_at_first_raise:
  "stops_at w h (before @ r # after) e0 \<Longrightarrow> raises w (h @ before) r = Some e \<Longrightarrow>
   after = [] \<and> e0 = e"
proof (induction before arbitrary: h)
  case Nil
  then show ?case by (simp split: if_splits)
next
  case (Cons a before)
  from Cons.prems have "stops_at w (h @ [a]) (before @ r # after) e0"
    and "raises w ((h @ [a]) @ before) r = Some e"
    by (simp_all split: if_splits)
  then show ?case by (rule Cons.IH)
qed

lemma unhandled_ret: "unhandled (ret x)"
  by (simp add: unhandled_def ret_def)

lemma unhandled_throw: "unhandled (throw (NameError x))"
  by (simp add: unhandled_def throw_def)

lemma unhandled_name: "unhandled (name x b)"
  by (cases b) (simp_all add: name_def unhandled_ret unhandled_throw)

lemma unhandled_call: "unhandled (call r result)"
  unfolding unhandled_def call_def
  by (auto split: option.splits)

lemma unhandled_seq:
  assumes m: "unhandled m" and f: "\<And>x. unhandled (f x)"
  shows "unhandled (seq m f)"
  unfolding unhandled_def
proof (intro allI)
  fix w h
  from m obtain n1 where n1: "snd (m w h) = h @ n1"
    and c1: "case fst (m w h) of Inr x \<Rightarrow> quiet w h n1
      | Inl e \<Rightarrow> stops_at w h n1 e \<or> ((\<exists>x. e = NameError x) \<and> quiet w h n1)"
    unfolding unhandled_def by blast
  show "\<exists>new. snd (seq m f w h) = h @ new \<and>
     (case fst (seq m f w h) of
        Inr x \<Rightarrow> quiet w h new
      | Inl e \<Rightarrow> stops_at w h new e \<or> ((\<exists>x. e = NameError x) \<and> quiet w h new))"
  proof (cases "fst (m w h)")
    case (Inl e)
    then have "fst (seq m f w h) = Inl e \<and> snd (seq m f w h) = snd (m w h)"
      by (cases "m w h") (simp add: seq_def)
    with n1 c1 Inl show ?thesis by auto
  next
    case (Inr x)
    then have s: "seq m f w h = f x w (h @ n1)"
      using n1 by (cases "m w h") (simp add: seq_def)
    from Inr c1 have q1: "quiet w h n1" by simp
    from f [of x] obtain n2 where n2: "snd (f x w (h @ n1)) = (h @ n1) @ n2"
      and c2: "case fst (f x w (h @ n1)) of Inr y \<Rightarrow> quiet w (h @ n1) n2
        | Inl e \<Rightarrow> stops_at w (h @ n1) n2 e \<or> ((\<exists>x. e = NameError x) \<and> quiet w (h @ n1) n2)"
      unfolding unhandled_def by blast
    have "snd (seq m f w h) = h @ (n1 @ n2)" using s n2 by simp
    moreover have "case fst (seq m f w h) of
        Inr x \<Rightarrow> quiet w h (n1 @ n2)
      | Inl e \<Rightarrow> stops_at w h (n1 @ n2) e \<or> ((\<exists>x. e = NameError x) \<and> quiet w h (n1 @ n2))"
      using c2 q1 s by (auto simp: quiet_append stops_at_append split: sum.splits)
    ultimately show ?thesis by blast
  qed
qed

lemma unhandled_assign: "(\<And>g. unhandled (e g)) \<Longrightarrow> unhandled (assign store e g)"
  by (simp add: assign_def unhandled_seq unhandled_ret)

lemma unhandled_expr_stmt: "(\<And>g. unhandled (e g)) \<Longrightarrow> unhandled (expr_stmt e g)"
  by (simp add: expr_stmt_def unhandled_seq unhandled_ret)

lemma unhandled_calls:
  "unhandled (magic l)"
  "unhandled (import_from m n)"
  "unhandled (construct C args kwargs)"
  "unhandled (invoke f args)"
  "unhandled (new_prompt_template p)"
  "unhandled (new_selector d cs)"
  "unhandled (selector_get_prompt selector v)"
  "unhandled (new_chain p v)"
  "unhandled (chain_run chain args)"
  by (simp_all add: magic_def import_from_def construct_def invoke_def new_prompt_template_def
       new_selector_def selector_get_prompt_def new_chain_def chain_run_def unhandled_call)

lemmas unhandled_intros = unhandled_assign unhandled_expr_stmt unhandled_seq unhandled_ret
  unhandled_name unhandled_calls

text \<open>Every statement of every cell is built from calls, names and sequencing alone.\<close>

lemma notebook_unhandled: "c \<in> set notebook \<Longrightarrow> st \<in> set c \<Longrightarrow> unhandled (st g)"
  unfolding notebook_def cell_defs
  by (auto intro!: unhandled_intros)

text \<open>A cell that ends in an exception: which statement raised, and from which names.\<close>

lemma run_cell_stops:
  "run_cell sts g w h = (Some e, g', h') \<Longrightarrow>
   \<exists>k hk. k < length sts \<and> run_cell (take k sts) g w h = (None, g', hk)
     \<and> (sts ! k) g' w hk = (Inl e, h')"
proof (induction sts arbitrary: g h)
  case Nil
  then show ?case by simp
next
  case (Cons st sts)
  show ?case
  proof (cases "st g w h")
    case (Pair r h1)
    show ?thesis
    proof (cases r)
      case (Inl e1)
      with Pair Cons.prems have "e1 = e" "g' = g" "h1 = h'" by simp_all
      with Pair Inl have "run_cell (take 0 (st # sts)) g w h = (None, g', h)
          \<and> ((st # sts) ! 0) g' w h = (Inl e, h')"
        by simp
      then show ?thesis by blast
    next
      case (Inr g1)
      with Pair Cons.prems have "run_cell sts g1 w h1 = (Some e, g', h')" by simp
      from Cons.IH [OF this] obtain k hk where k: "k < length sts"
        "run_cell (take k sts) g1 w h1 = (None, g', hk)" "(sts ! k) g' w hk = (Inl e, h')"
        by blast
      then have "Suc k < length (st # sts)
          \<and> run_cell (take (Suc k) (st # sts)) g w h = (None, g', hk)
          \<and> ((st # sts) ! Suc k) g' w hk = (Inl e, h')"
        using Pair Inr by simp
      then show ?thesis by blast
    qed
  qed
qed

lemma run_cell_unhandled:
  "\<forall>st\<in>set sts. \<forall>g. unhandled (st g) \<Longrightarrow> run_cell sts g w h = (res, g', h') \<Longrightarrow>
   \<exists>new. h' = h @ new \<and>
     (case res of None \<Rightarrow> quiet w h new
      | Some e \<Rightarrow> stops_at w h new e \<or> ((\<exists>x. e = NameError x) \<and> quiet w h new))"
proof (induction sts arbitrary: g h)
  case Nil
  then show ?case by simp
next
  case (Cons st sts)
  from Cons.prems(1) have "unhandled (st g)" by simp
  then obtain n1 where n1: "snd (st g w h) = h @ n1"
    and c1: "case fst (st g w h) of Inr x \<Rightarrow> quiet w h n1
      | Inl e \<Rightarrow> stops_at w h n1 e \<or> ((\<exists>x. e = NameError x) \<and> quiet w h n1)"
    unfolding unhandled_def by auto
  show ?case
  proof (cases "fst (st g w h)")
    case (Inl e)
    then have "run_cell (st # sts) g w h = (Some e, g, h @ n1)"
      using n1 by (cases "st g w h") simp
    with Cons.prems(2) Inl c1 show ?thesis by auto
  next
    case (Inr g1)
    then have r: "run_cell (st # sts) g w h = run_cell sts g1 w (h @ n1)"
      using n1 by (cases "st g w h") simp
    from Inr c1 have q1: "quiet w h n1" by simp
    from r Cons.prems(2) have "run_cell sts g1 w (h @ n1) = (res, g', h')" by simp
    moreover from Cons.prems(1) have "\<forall>st\<in>set sts. \<forall>g. unhandled (st g)" by simp
    ultimately obtain n2 where n2: "h' = (h @ n1) @ n2"
      and c2: "case res of None \<Rightarrow> quiet w (h @ n1) n2
        | Some e \<Rightarrow> stops_at w (h @ n1) n2 e \<or> ((\<exists>x. e = NameError x) \<and> quiet w (h @ n1) n2)"
      using Cons.IH [of g1 "h @ n1"] by blast
    have "h' = h @ (n1 @ n2)" using n2 by simp
    moreover have "case res of None \<Rightarrow> quiet w h (n1 @ n2)
        | Some e \<Rightarrow> stops_at w h (n1 @ n2) e \<or> ((\<exists>x. e = NameError x) \<and> quiet w h (n1 @ n2))"
      using c2 q1 by (auto simp: quiet_append stops_at_append split: option.splits)
    ultimately show ?thesis by blast
  qed
qed

text \<open>
  C7. No code cell handles, retries or recovers from anything. Run any cell of the
  notebook, from any names \<open>g\<close>, in any world \<open>w\<close>, after any history \<open>h\<close>; let \<open>new\<close>
  be the requests the cell makes. Then:
  \<^item> whenever the library raises an exception \<open>e\<close> at one of these requests, that
    request is the last one the cell makes (nothing is retried, nothing is done to
    recover) and the cell ends in \<open>e\<close> itself;
  \<^item> when the cell ends in an exception \<open>e\<close>, a statement of the cell raised it, the
    statements before that one completed, and the names the cell leaves are the names
    that statement started from: the failing call binds nothing and unbinds nothing;
    moreover \<open>e\<close> is the library's exception at the last request, or the
    \<^verbatim>\<open>NameError\<close> of a name read before any statement bound it;
  \<^item> when the cell ends without an exception, no request raised.
\<close>

theorem exceptions_leave_cell_unhandled:
  assumes c: "c \<in> set notebook" and run: "run_cell c g w h = (res, g', h')"
  shows "\<exists>new. h' = h @ new
    \<and> (\<forall>before r after e. new = before @ r # after \<and> raises w (h @ before) r = Some e
          \<longrightarrow> after = [] \<and> res = Some e)
    \<and> (\<forall>e. res = Some e \<longrightarrow>
          (\<exists>k hk. k < length c \<and> run_cell (take k c) g w h = (None, g', hk)
             \<and> (c ! k) g' w hk = (Inl e, h'))
          \<and> (stops_at w h new e \<or> (\<exists>x. e = NameError x) \<and> quiet w h new))
    \<and> (res = None \<longrightarrow> quiet w h new)"
proof -
  have "\<forall>st\<in>set c. \<forall>g. unhandled (st g)"
    using c notebook_unhandled by blast
  from run_cell_unhandled [OF this run]
  obtain new where new: "h' = h @ new"
    and cs: "case res of None \<Rightarrow> quiet w h new
      | Some e \<Rightarrow> stops_at w h new e \<or> ((\<exists>x. e = NameError x) \<and> quiet w h new)"
    by blast
  have fwd: "after = [] \<and> res = Some e"
    if "new = before @ r # after" "raises w (h @ before) r = Some e" for before r after e
  proof (cases res)
    case None
    with cs that quiet_no_raise [of w h before r after e] show ?thesis by simp
  next
    case (Some e0)
    with cs that quiet_no_raise [of w h before r after e]
    have "stops_at w h (before @ r # after) e0"
      by auto
    from stops_at_first_raise [OF this that(2)] Some show ?thesis by simp
  qed
  have bwd: "(\<exists>k hk. k < length c \<and> run_cell (take k c) g w h = (None, g', hk)
             \<and> (c ! k) g' w hk = (Inl e, h'))
          \<and> (stops_at w h new e \<or> (\<exists>x. e = NameError x) \<and> quiet w h new)"
    if "res = Some e" for e
    using run_cell_stops [of c g w h e g' h'] run that cs by simp
  have "res = None \<longrightarrow> quiet w h new" using cs by auto
  with new fwd bwd show ?thesis by blast
qed

text \<open>
  The first cell, when the model-serving process cannot be reached: the import and the
  construction return, the call of the client raises. The cell ends in that exception;
  the third statement raised it; \<^verbatim>\<open>llm\<close> is bound as the second statement left it.
\<close>

theorem exceptions_leave_cell_unhandled_witness:
  "cell_86178adb \<in> set notebook
   \<and> run_cell cell_86178adb no_globals offline [] =
       (Some (Raised ''ConnectionError'' ''connection refused''),
        no_globals\<lparr>g_llm := Some (ollama_obj (\<lambda>C. [''BaseLLM'']) [(''model'', StrV ''llama2'')])\<rparr>,
        [Import ''langchain.llms'' ''Ollama'',
         Construct Ollama [] [(''model'', StrV ''llama2'')],
         Invoke (ollama_obj (\<lambda>C. [''BaseLLM'']) [(''model'', StrV ''llama2'')])
           [StrV ''The first man on the moon was ...'']])
   \<and> (\<exists>hk. run_cell (take 2 cell_86178adb) no_globals offline [] =
         (None,
          no_globals\<lparr>g_llm := Some (ollama_obj (\<lambda>C. [''BaseLLM'']) [(''model'', StrV ''llama2'')])\<rparr>,
          hk))
   \<and> (\<exists>k hk. k < length cell_86178adb
        \<and> (cell_86178adb ! k)
            (no_globals\<lparr>g_llm := Some (ollama_obj (\<lambda>C. [''BaseLLM'']) [(''model'', StrV ''llama2'')])\<rparr>)
            offline hk
          = (Inl (Raised ''ConnectionError'' ''connection refused''),
             [Import ''langchain.llms'' ''Ollama'',
              Construct Ollama [] [(''model'', StrV ''llama2'')],
              Invoke (ollama_obj (\<lambda>C. [''BaseLLM'']) [(''model'', StrV ''llama2'')])
                [StrV ''The first man on the moon was ...'']]))"
proof -
  have m: "cell_86178adb \<in> set notebook"
    by (simp add: notebook_def)
  have r: "run_cell cell_86178adb no_globals offline [] =
       (Some (Raised ''ConnectionError'' ''connection refused''),
        no_globals\<lparr>g_llm := Some (ollama_obj (\<lambda>C. [''BaseLLM'']) [(''model'', StrV ''llama2'')])\<rparr>,
        [Import ''langchain.llms'' ''Ollama'',
         Construct Ollama [] [(''model'', StrV ''llama2'')],
         Invoke (ollama_obj (\<lambda>C. [''BaseLLM'']) [(''model'', StrV ''llama2'')])
           [StrV ''The first man on the moon was ...'']])"
    by (simp add: cell_86178adb_def io_defs offline_def no_globals_def ollama_obj_def)
  have t: "\<exists>hk. run_cell (take 2 cell_86178adb) no_globals offline [] =
         (None,
          no_globals\<lparr>g_llm := Some (ollama_obj (\<lambda>C. [''BaseLLM'']) [(''model'', StrV ''llama2'')])\<rparr>,
          hk)"
    by (simp add: cell_86178adb_def io_defs offline_def no_globals_def ollama_obj_def)
  from exceptions_leave_cell_unhandled [OF m r] m r t show ?thesis
    by blast
qed

section \<open>Clients that are not LlamaCpp objects\<close>

lemma client_cells_bind:
  "run_cell cell_86178adb g w h = (None, g', h') \<Longrightarrow>
     g_llm g' = Some (ollama_obj (bases w) [(''model'', StrV ''llama2'')])"
  "run_cell cell_9cd83603 g w h = (None, g', h') \<Longrightarrow>
     g_llm g' = Some (ollama_obj (bases w)
       [(''model'', StrV ''llama2''), (''callback_manager'', manager_obj (bases w))])"
  "run_cell cell_8ecd2f78 g w h = (None, g', h') \<Longrightarrow>
     g_llm g' = Some (ollama_obj (bases w) [(''model'', StrV ''llama2:13b'')])"
  "run_cell cell_915ecd4c g w h = (None, g', h') \<Longrightarrow> g_llm g' = Some (gpt4all_obj (bases w))"
  by (auto simp: cell_defs io_defs obj_defs split: option.splits)

text \<open>
  C8. Every llm that is not an instance of \<^verbatim>\<open>LlamaCpp\<close> receives
  \<^verbatim>\<open>DEFAULT_SEARCH_PROMPT\<close>, whose template has neither \<^verbatim>\<open><<SYS>>\<close> nor \<^verbatim>\<open>[INST]\<close>.
  In a world where \<^verbatim>\<open>LlamaCpp\<close> is not a base class of \<^verbatim>\<open>Ollama\<close> or of
  \<^verbatim>\<open>GPT4All\<close>, this holds of the client each of the four cells \<^verbatim>\<open>86178adb\<close>,
  \<^verbatim>\<open>9cd83603\<close>, \<^verbatim>\<open>8ecd2f78\<close> and \<^verbatim>\<open>915ecd4c\<close> binds to \<^verbatim>\<open>llm\<close>, and of an
  \<^verbatim>\<open>Ollama\<close> client whatever its arguments, also \<^verbatim>\<open>model="llama2"\<close>: the class of the
  client decides, not the model it serves.
\<close>

theorem non_llamacpp_clients_get_default_prompt:
  "(\<not> isinstance llm LlamaCpp \<longrightarrow> get_prompt QUESTION_PROMPT_SELECTOR llm = DEFAULT_SEARCH_PROMPT)
   \<and> \<not> str_contains (template DEFAULT_SEARCH_PROMPT) ''<<SYS>>''
   \<and> \<not> str_contains (template DEFAULT_SEARCH_PROMPT) ''[INST]''
   \<and> (LlamaCpp \<notin> set (bases w Ollama) \<and> LlamaCpp \<notin> set (bases w GPT4All)
        \<and> c \<in> {cell_86178adb, cell_9cd83603, cell_8ecd2f78, cell_915ecd4c}
        \<and> run_cell c g w h = (None, g', h') \<longrightarrow>
        (\<exists>v. g_llm g' = Some v \<and> is_client v \<and> \<not> isinstance v LlamaCpp
           \<and> get_prompt QUESTION_PROMPT_SELECTOR v = DEFAULT_SEARCH_PROMPT))
   \<and> (LlamaCpp \<notin> set (bases w Ollama) \<longrightarrow>
        get_prompt QUESTION_PROMPT_SELECTOR (ollama_obj (bases w) kwargs) = DEFAULT_SEARCH_PROMPT)"
proof -
  have o: "\<not> isinstance (ollama_obj (bases w) kw) LlamaCpp"
    if "LlamaCpp \<notin> set (bases w Ollama)" for kw
    using that by (simp add: isinstance_def ollama_obj_def class_defs)
  have p: "\<not> isinstance (gpt4all_obj (bases w)) LlamaCpp"
    if "LlamaCpp \<notin> set (bases w GPT4All)"
    using that by (simp add: isinstance_def gpt4all_obj_def class_defs)
  have cl: "is_client (ollama_obj (bases w) kw)" "is_client (gpt4all_obj (bases w))" for kw
    by (simp_all add: ollama_obj_def gpt4all_obj_def)
  have "\<exists>v. g_llm g' = Some v \<and> is_client v \<and> \<not> isinstance v LlamaCpp
           \<and> get_prompt QUESTION_PROMPT_SELECTOR v = DEFAULT_SEARCH_PROMPT"
    if "LlamaCpp \<notin> set (bases w Ollama)" "LlamaCpp \<notin> set (bases w GPT4All)"
      "c \<in> {cell_86178adb, cell_9cd83603, cell_8ecd2f78, cell_915ecd4c}"
      "run_cell c g w h = (None, g', h')"
    using that o p cl client_cells_bind [of g w h g' h']
    by (auto simp: get_prompt_QUESTION_PROMPT_SELECTOR)
  then show ?thesis
    using o default_no_markers by (auto simp: get_prompt_QUESTION_PROMPT_SELECTOR)
qed

text \<open>
  The first cell, in a world where nothing raises and every class has the one base
  class \<^verbatim>\<open>BaseLLM\<close>: the \<^verbatim>\<open>Ollama\<close> client for \<^verbatim>\<open>"llama2"\<close> gets the default prompt.
\<close>

theorem non_llamacpp_clients_get_default_prompt_witness:
  "LlamaCpp \<notin> set (bases (calm (\<lambda>h r. []) (\<lambda>C. [''BaseLLM''])) Ollama)
   \<and> LlamaCpp \<notin> set (bases (calm (\<lambda>h r. []) (\<lambda>C. [''BaseLLM''])) GPT4All)
   \<and> cell_86178adb \<in> {cell_86178adb, cell_9cd83603, cell_8ecd2f78, cell_915ecd4c}
   \<and> raised_of (run_cell cell_86178adb no_globals (calm (\<lambda>h r. []) (\<lambda>C. [''BaseLLM''])) []) = None
   \<and> g_llm (globals_of
        (run_cell cell_86178adb no_globals (calm (\<lambda>h r. []) (\<lambda>C. [''BaseLLM''])) []))
       = Some (ollama_obj (\<lambda>C. [''BaseLLM'']) [(''model'', StrV ''llama2'')])
   \<and> \<not> isinstance (ollama_obj (\<lambda>C. [''BaseLLM'']) [(''model'', StrV ''llama2'')]) LlamaCpp
   \<and> get_prompt QUESTION_PROMPT_SELECTOR
        (ollama_obj (\<lambda>C. [''BaseLLM'']) [(''model'', StrV ''llama2'')]) = DEFAULT_SEARCH_PROMPT"
proof -
  let ?w = "calm (\<lambda>h r. []) (\<lambda>C. [''BaseLLM''])"
  let ?out = "run_cell cell_86178adb no_globals ?w []"
  have b: "LlamaCpp \<notin> set (bases ?w Ollama)" "LlamaCpp \<notin> set (bases ?w GPT4All)"
    by (simp_all add: calm_def class_defs)
  have m: "cell_86178adb \<in> {cell_86178adb, cell_9cd83603, cell_8ecd2f78, cell_915ecd4c}"
    by simp
  have r: "raised_of ?out = None"
    by (simp add: cell_86178adb_def io_defs calm_def raised_of_def)
  have v: "g_llm (globals_of ?out)
      = Some (ollama_obj (\<lambda>C. [''BaseLLM'']) [(''model'', StrV ''llama2'')])"
    by (simp add: cell_86178adb_def io_defs calm_def globals_of_def ollama_obj_def)
  from non_llamacpp_clients_get_default_prompt
    [of _ ?w cell_86178adb no_globals "[]" "globals_of ?out" "requests_of ?out"]
    b m r outcome_None [OF r] v
  show ?thesis by auto
qed

section \<open>The input variable of the selected prompt\<close>

text \<open>
  C9. Both templates declare the single input variable \<^verbatim>\<open>question\<close>, so the template
  \<^verbatim>\<open>QUESTION_PROMPT_SELECTOR.get_prompt(llm)\<close> does, for every llm. Consequently,
  whichever llm the names hold and whichever of the two templates was selected for it,
  cell \<^verbatim>\<open>d0aedfd2\<close> (in a world where nothing raises) runs one chain, built from that
  template and that llm, on one dict whose only key is \<^verbatim>\<open>question\<close>: the run is
  well-formed.
\<close>

theorem selected_prompt_takes_question:
  "input_variables DEFAULT_LLAMA_SEARCH_PROMPT = [''question'']
   \<and> input_variables DEFAULT_SEARCH_PROMPT = [''question'']
   \<and> input_variables (get_prompt QUESTION_PROMPT_SELECTOR llm) = [''question'']
   \<and> (g_llm g = Some llm \<and> g_prompt g = Some (get_prompt QUESTION_PROMPT_SELECTOR llm) \<longrightarrow>
        (\<exists>q. chain_runs (requests_of (run_cell cell_d0aedfd2 g (calm rep bs) [])) =
           [(\<lparr>chain_prompt = get_prompt QUESTION_PROMPT_SELECTOR llm, chain_llm = llm\<rparr>,
             [DictV [(StrV ''question'', StrV q)]])])
        \<and> list_all (\<lambda>(chain, args). well_formed_run chain args)
            (chain_runs (requests_of (run_cell cell_d0aedfd2 g (calm rep bs) []))))"
proof -
  have iv: "input_variables (get_prompt QUESTION_PROMPT_SELECTOR llm) = [''question'']"
    by (simp add: get_prompt_QUESTION_PROMPT_SELECTOR input_variables_question)
  have "chain_runs (requests_of (run_cell cell_d0aedfd2 g (calm rep bs) [])) =
           [(\<lparr>chain_prompt = get_prompt QUESTION_PROMPT_SELECTOR llm, chain_llm = llm\<rparr>,
             [DictV [(StrV ''question'',
                StrV ''What NFL team won the Super Bowl in the year that Justin Bieber was born?'')]])]"
    if "g_llm g = Some llm" "g_prompt g = Some (get_prompt QUESTION_PROMPT_SELECTOR llm)"
    using that by (simp add: cell_d0aedfd2_def io_defs calm_def requests_of_def)
  then show ?thesis
    using iv input_variables_question by (auto simp: well_formed_run_def)
qed

text \<open>With a \<^verbatim>\<open>GPT4All\<close> client, for which the selector takes the default branch.\<close>

theorem selected_prompt_takes_question_witness:
  "g_llm (no_globals\<lparr>g_llm := Some (gpt4all_obj (\<lambda>C. [''BaseLLM''])),
            g_prompt := Some DEFAULT_SEARCH_PROMPT\<rparr>)
     = Some (gpt4all_obj (\<lambda>C. [''BaseLLM'']))
   \<and> g_prompt (no_globals\<lparr>g_llm := Some (gpt4all_obj (\<lambda>C. [''BaseLLM''])),
            g_prompt := Some DEFAULT_SEARCH_PROMPT\<rparr>)
     = Some (get_prompt QUESTION_PROMPT_SELECTOR (gpt4all_obj (\<lambda>C. [''BaseLLM''])))
   \<and> chain_runs (requests_of (run_cell cell_d0aedfd2
        (no_globals\<lparr>g_llm := Some (gpt4all_obj (\<lambda>C. [''BaseLLM''])),
            g_prompt := Some DEFAULT_SEARCH_PROMPT\<rparr>)
        (calm (\<lambda>h r. []) (\<lambda>C. [''BaseLLM''])) [])) =
       [(\<lparr>chain_prompt = DEFAULT_SEARCH_PROMPT, chain_llm = gpt4all_obj (\<lambda>C. [''BaseLLM''])\<rparr>,
         [DictV [(StrV ''question'',
            StrV ''What NFL team won the Super Bowl in the year that Justin Bieber was born?'')]])]
   \<and> well_formed_run
       \<lparr>chain_prompt = DEFAULT_SEARCH_PROMPT, chain_llm = gpt4all_obj (\<lambda>C. [''BaseLLM''])\<rparr>
       [DictV [(StrV ''question'',
          StrV ''What NFL team won the Super Bowl in the year that Justin Bieber was born?'')]]"
proof -
  let ?v = "gpt4all_obj (\<lambda>C. [''BaseLLM''])"
  let ?g = "no_globals\<lparr>g_llm := Some ?v, g_prompt := Some DEFAULT_SEARCH_PROMPT\<rparr>"
  have p: "get_prompt QUESTION_PROMPT_SELECTOR ?v = DEFAULT_SEARCH_PROMPT"
    by (simp add: get_prompt_QUESTION_PROMPT_SELECTOR isinstance_def gpt4all_obj_def class_defs)
  have a: "g_llm ?g = Some ?v \<and> g_prompt ?g = Some (get_prompt QUESTION_PROMPT_SELECTOR ?v)"
    by (simp add: p)
  have e: "chain_runs (requests_of (run_cell cell_d0aedfd2 ?g
        (calm (\<lambda>h r. []) (\<lambda>C. [''BaseLLM''])) [])) =
       [(\<lparr>chain_prompt = DEFAULT_SEARCH_PROMPT, chain_llm = ?v\<rparr>,
         [DictV [(StrV ''question'',
            StrV ''What NFL team won the Super Bowl in the year that Justin Bieber was born?'')]])]"
    by (simp add: cell_d0aedfd2_def io_defs calm_def requests_of_def no_globals_def)
  from selected_prompt_takes_question
    [of ?v ?g "\<lambda>h r. []" "\<lambda>C. [''BaseLLM'']"] a e
  show ?thesis by simp
qed

section \<open>Selecting a prompt changes nothing else\<close>

text \<open>
  In the store a call can have a side effect, and two calls can differ: with the
  selector of \<open>marking_store\<close> the first call returns the template at 0 and modifies
  the llm, and the second call returns the template at 1.
\<close>

lemma effectful_condition_is_a_side_effect:
  "get_prompt_in 2 3 marking_store =
     (Inr 0, marking_store
        (3 := Instance (LlamaCpp, [''BaseLLM'']) [(''seen'', BoolV True), (''n_ctx'', IntV 2048)]))
   \<and> snd (get_prompt_in 2 3 marking_store) 3 \<noteq> marking_store 3
   \<and> fst (get_prompt_in 2 3 (snd (get_prompt_in 2 3 marking_store))) = Inr 1"
  by (simp add: get_prompt_in_def marking_store_def notebook_store_def)

text \<open>
  C10. \<^verbatim>\<open>QUESTION_PROMPT_SELECTOR.get_prompt\<close> is deterministic and free of side
  effects. In every store that holds the selector as the notebook constructs it and the
  two templates, and for every llm in it (also the selector itself, or a template): the
  call returns the address of the LLaMA template when the llm is an instance of
  \<^verbatim>\<open>LlamaCpp\<close> and of the default template otherwise, and the store after the call is
  the store before it. So the selector is not modified (it holds the same default
  prompt and the same conditionals list), the llm is not modified, and a second call
  with the same llm returns the same template and the same store. The template returned
  is the one \<open>get_prompt\<close> of C1 returns on the llm as a value.
\<close>

theorem get_prompt_deterministic_no_side_effect:
  assumes sel: "S self = QUESTION_PROMPT_SELECTOR_in dflt llama"
    and d: "S dflt = TemplateObj DEFAULT_SEARCH_PROMPT"
    and l: "S llama = TemplateObj DEFAULT_LLAMA_SEARCH_PROMPT"
  shows "get_prompt_in self llm S =
           (Inr (if isinstance (view (S llm)) LlamaCpp then llama else dflt), S)
    \<and> snd (get_prompt_in self llm S) self = SelectorObj dflt [(IsInstanceLambda LlamaCpp, llama)]
    \<and> snd (get_prompt_in self llm S) llm = S llm
    \<and> get_prompt_in self llm (snd (get_prompt_in self llm S)) = get_prompt_in self llm S
    \<and> (\<exists>p. fst (get_prompt_in self llm S) = Inr p
          \<and> S p = TemplateObj (get_prompt QUESTION_PROMPT_SELECTOR (view (S llm))))"
proof -
  have r: "get_prompt_in self llm S =
           (Inr (if isinstance (view (S llm)) LlamaCpp then llama else dflt), S)"
    using sel by (simp add: get_prompt_in_def QUESTION_PROMPT_SELECTOR_in_def)
  then show ?thesis
    using sel d l
    by (simp add: get_prompt_QUESTION_PROMPT_SELECTOR QUESTION_PROMPT_SELECTOR_in_def)
qed

text \<open>
  In \<open>notebook_store\<close>: the \<^verbatim>\<open>LlamaCpp\<close> client at 3 gets the template at 0, the
  \<^verbatim>\<open>GPT4All\<close> client at 4 the template at 1, and the store stays as it is.
\<close>

theorem get_prompt_deterministic_no_side_effect_witness:
  "notebook_store 2 = QUESTION_PROMPT_SELECTOR_in 1 0
   \<and> notebook_store 1 = TemplateObj DEFAULT_SEARCH_PROMPT
   \<and> notebook_store 0 = TemplateObj DEFAULT_LLAMA_SEARCH_PROMPT
   \<and> get_prompt_in 2 3 notebook_store = (Inr 0, notebook_store)
   \<and> get_prompt_in 2 4 notebook_store = (Inr 1, notebook_store)
   \<and> get_prompt_in 2 3 (snd (get_prompt_in 2 3 notebook_store)) = get_prompt_in 2 3 notebook_store"
proof -
  have h: "notebook_store 2 = QUESTION_PROMPT_SELECTOR_in 1 0"
    "notebook_store 1 = TemplateObj DEFAULT_SEARCH_PROMPT"
    "notebook_store 0 = TemplateObj DEFAULT_LLAMA_SEARCH_PROMPT"
    by (simp_all add: notebook_store_def)
  have v: "isinstance (view (notebook_store 3)) LlamaCpp"
    "\<not> isinstance (view (notebook_store 4)) LlamaCpp"
    by (simp_all add: notebook_store_def isinstance_def LlamaCpp_def GPT4All_def)
  from get_prompt_deterministic_no_side_effect [OF h, of 3]
    get_prompt_deterministic_no_side_effect [OF h, of 4] h v
  show ?thesis by simp
qed

end
